theory Spec2Isabelle
  imports Main "HOL-Library.Sublist"
begin

section \<open>svg-cli: request construction, response extraction and error exits\<close>

text \<open>
  A shallow embedding of \<^verbatim>\<open>svg-cli.py\<close>. A Python \<^verbatim>\<open>str\<close> is a list of
  characters; the string operations the program uses are defined for lists over any
  alphabet and used at \<^typ>\<open>string\<close>, one \<^typ>\<open>char\<close> standing for one character of
  the text. Everything the program does besides computing strings (printing, exiting,
  reading and writing files, the HTTP POST) is explicit: a function takes the state of the
  process and returns its result together with the new state.
\<close>

subsection \<open>Python string operations\<close>

text \<open>\<^verbatim>\<open>s.startswith(p)\<close>.\<close>

definition startswith :: "'a list \<Rightarrow> 'a list \<Rightarrow> bool" where
  "startswith s p = prefix p s"

text \<open>\<^verbatim>\<open>sub in s\<close>: \<^verbatim>\<open>sub\<close> occurs in \<^verbatim>\<open>s\<close> at some offset.\<close>

fun str_in :: "'a list \<Rightarrow> 'a list \<Rightarrow> bool" where
  "str_in sub [] = (sub = [])"
| "str_in sub (c # cs) = (prefix sub (c # cs) \<or> str_in sub cs)"

text \<open>
  \<^verbatim>\<open>s.find(sub)\<close>: the lowest offset at which \<^verbatim>\<open>sub\<close> occurs in \<^verbatim>\<open>s\<close>, and
  the sentinel \<open>-1\<close> when it occurs nowhere.
\<close>

fun str_find :: "'a list \<Rightarrow> 'a list \<Rightarrow> int" where
  "str_find [] sub = (if sub = [] then 0 else - 1)"
| "str_find (c # cs) sub =
     (if prefix sub (c # cs) then 0
      else (let k = str_find cs sub in if k < 0 then - 1 else k + 1))"

text \<open>
  \<^verbatim>\<open>s[start:stop]\<close> for integer bounds: a negative bound counts from the end, and both
  bounds are clamped to \<open>0 .. len(s)\<close>; the slice is empty when \<open>stop\<close> does not lie
  after \<open>start\<close>.
\<close>

definition str_slice :: "'a list \<Rightarrow> int \<Rightarrow> int \<Rightarrow> 'a list" where
  "str_slice s start stop =
     (let n = int (length s);
          lo = (if start < 0 then max (start + n) 0 else min start n);
          hi = (if stop < 0 then max (stop + n) 0 else min stop n)
      in take (nat (hi - lo)) (drop (nat lo) s))"

subsection \<open>The process and its surroundings\<close>

text \<open>
  What a run is given and cannot change: the process environment (after
  \<^verbatim>\<open>dotenv.load_dotenv()\<close>), what the remote service does with a request,
  whether opening a path for writing raises \<^verbatim>\<open>IOError\<close>, and, for a path that
  cannot be read, whether the exception raised is another one than
  \<^verbatim>\<open>FileNotFoundError\<close>: \<^verbatim>\<open>NotADirectoryError\<close> for a path through a file,
  \<^verbatim>\<open>IsADirectoryError\<close>, \<^verbatim>\<open>PermissionError\<close>, \<^verbatim>\<open>OSError\<close> for a name too
  long, \<^verbatim>\<open>UnicodeDecodeError\<close> for bytes that are no UTF-8.
\<close>

record block =
  block_type :: string
  block_text :: string

datatype message_content = Text string | Blocks "block list"

record message =
  msg_role :: string
  msg_content :: message_content

record payload =
  model :: string
  max_tokens :: int
  system :: string
  messages :: "message list"

record request =
  req_url :: string
  req_headers :: "string \<rightharpoonup> string"
  req_json :: payload
  req_timeout :: int

text \<open>
  The outcome of lines 75 to 78 (and 121 to 124), \<^verbatim>\<open>requests.post\<close>,
  \<^verbatim>\<open>raise_for_status\<close>, \<^verbatim>\<open>response.json()\<close> and
  \<^verbatim>\<open>result["content"][0]["text"]\<close>: a \<^verbatim>\<open>RequestException\<close> with its message, which
  the \<^verbatim>\<open>except\<close> clause catches; any other exception (a \<^verbatim>\<open>KeyError\<close> or
  \<^verbatim>\<open>IndexError\<close> of the subscripts, a text that is no string), which nothing catches;
  or the text of the first content block.
\<close>

datatype reply = RequestException string | OtherException | Content string

record setting =
  environ :: "string \<rightharpoonup> string"
  net :: "request \<Rightarrow> reply"
  write_error :: "string \<Rightarrow> string option"
  read_error :: "string \<Rightarrow> bool"

text \<open>
  What a run changes: the files (a path to the text \<^verbatim>\<open>f.read()\<close> returns, and
  nothing at a path where \<^verbatim>\<open>open\<close> or \<^verbatim>\<open>f.read()\<close> raises), the lines
  printed by \<^verbatim>\<open>click.echo\<close>, oldest first, and the requests posted, oldest first.
\<close>

record world =
  files :: "string \<rightharpoonup> string"
  stdout :: "string list"
  posted :: "request list"

text \<open>
  A call either returns a value or is left by an exception that no handler of the program
  catches: \<^verbatim>\<open>SystemExit\<close> raised by \<^verbatim>\<open>sys.exit\<close>, or any other exception, which
  ends the process with a traceback.
\<close>

datatype abort = SystemExit int | Traceback

type_synonym 'a action = "world \<Rightarrow> (abort + 'a) \<times> world"

definition echo :: "string \<Rightarrow> world \<Rightarrow> world" where
  "echo msg w = w\<lparr>stdout := stdout w @ [msg]\<rparr>"

definition sys_exit :: "int \<Rightarrow> 'a action" where
  "sys_exit code w = (Inl (SystemExit code), w)"

text \<open>The exit status of the process: 0 when the command returns, Python's 1 for a traceback.\<close>

fun exit_code :: "abort + 'a \<Rightarrow> int" where
  "exit_code (Inr _) = 0"
| "exit_code (Inl (SystemExit code)) = code"
| "exit_code (Inl Traceback) = 1"

subsection \<open>Module constants\<close>

text \<open>Truth value of \<^verbatim>\<open>None\<close> or a string: only a non-empty string is true.\<close>

definition truthy :: "string option \<Rightarrow> bool" where
  "truthy v = (case v of None \<Rightarrow> False | Some s \<Rightarrow> s \<noteq> [])"

text \<open>
  \<^verbatim>\<open>API_KEY = os.environ.get("ANTHROPIC_API_KEY") or os.environ.get("CLAUDE_API_KEY")\<close>
\<close>

definition API_KEY :: "setting \<Rightarrow> string option" where
  "API_KEY cfg =
     (if truthy (environ cfg ''ANTHROPIC_API_KEY'') then environ cfg ''ANTHROPIC_API_KEY''
      else environ cfg ''CLAUDE_API_KEY'')"

definition API_URL :: string where
  "API_URL = ''https://api.anthropic.com/v1/messages''"

definition MODEL :: string where
  "MODEL = ''claude-3-opus-20240229''"

definition SVG_SYSTEM_PROMPT :: string where
  "SVG_SYSTEM_PROMPT =
     ''You are an expert SVG creator. The user will ask you to create or modify SVG images.''
     @ [CHR 0x0A, CHR 0x0A] @
     ''IMPORTANT INSTRUCTIONS:'' @ [CHR 0x0A] @
     ''1. Respond ONLY with valid SVG code'' @ [CHR 0x0A] @
     ''2. Do NOT include any explanations, comments, or markdown'' @ [CHR 0x0A] @
     ''3. Your response must start with <svg and end with </svg>'' @ [CHR 0x0A] @
     ''4. Create clean, optimized SVG code'' @ [CHR 0x0A] @
     ''5. Do not include any text outside the SVG tags'' @ [CHR 0x0A, CHR 0x0A] @
     ''If editing an existing SVG, maintain its structure while implementing the requested changes.''"

subsection \<open>Credential check and headers\<close>

definition validate_api_key :: "setting \<Rightarrow> unit action" where
  "validate_api_key cfg w =
     (if \<not> truthy (API_KEY cfg) then
        sys_exit 1
          (echo ''Error: Claude API key not found. Please set ANTHROPIC_API_KEY in your environment.'' w)
      else (Inr (), w))"

text \<open>
  \<^verbatim>\<open>API_KEY.startswith\<close> on \<^verbatim>\<open>None\<close> would raise \<^verbatim>\<open>AttributeError\<close>; the check
  before it has left the call by then.
\<close>

definition get_headers :: "setting \<Rightarrow> (string \<rightharpoonup> string) action" where
  "get_headers cfg w =
     (case validate_api_key cfg w of
        (Inl a, w1) \<Rightarrow> (Inl a, w1)
      | (Inr _, w1) \<Rightarrow>
          (let headers = [''anthropic-version'' \<mapsto> ''2023-06-01'',
                          ''content-type'' \<mapsto> ''application/json'']
           in case API_KEY cfg of
                None \<Rightarrow> (Inl Traceback, w1)
              | Some key \<Rightarrow>
                  if startswith key ''sk-ant-'' then (Inr (headers(''x-api-key'' \<mapsto> key)), w1)
                  else (Inr (headers(''authorization'' \<mapsto> ''Bearer '' @ key)), w1)))"

text \<open>
  \<^verbatim>\<open>requests.post(API_URL, headers=headers, json=data, timeout=60)\<close> and the three
  lines after it: the request is recorded and the surroundings answer.
\<close>

definition post :: "setting \<Rightarrow> (string \<rightharpoonup> string) \<Rightarrow> payload \<Rightarrow> world \<Rightarrow> reply \<times> world" where
  "post cfg headers data w =
     (let req = \<lparr>req_url = API_URL, req_headers = headers, req_json = data, req_timeout = 60\<rparr>
      in (net cfg req, w\<lparr>posted := posted w @ [req]\<rparr>))"

subsection \<open>\<^verbatim>\<open>create_svg\<close>\<close>

text \<open>Lines 65 to 72, the dictionary \<^verbatim>\<open>data\<close> of \<^verbatim>\<open>create_svg\<close>.\<close>

definition create_svg_data :: "string \<Rightarrow> payload" where
  "create_svg_data prompt =
     \<lparr>model = MODEL, max_tokens = 4096, system = SVG_SYSTEM_PROMPT,
      messages =
        [\<lparr>msg_role = ''user'',
          msg_content = Text (''Create an SVG image based on this description: '' @ prompt)\<rparr>]\<rparr>"

text \<open>Lines 81 to 87, the extraction of \<^verbatim>\<open>create_svg\<close>.\<close>

definition create_svg_extract :: "string \<Rightarrow> string action" where
  "create_svg_extract content w =
     (if str_in ''<svg'' content \<and> str_in ''</svg>'' content then
        (let svg_start = str_find content ''<svg'';
             svg_end = str_find content ''</svg>'' + 6
         in (Inr (str_slice content svg_start svg_end), w))
      else
        sys_exit 1 (echo ''Error: Claude's response did not contain valid SVG code.'' w))"

definition create_svg :: "setting \<Rightarrow> string \<Rightarrow> string action" where
  "create_svg cfg prompt w =
     (case get_headers cfg w of
        (Inl a, w1) \<Rightarrow> (Inl a, w1)
      | (Inr headers, w1) \<Rightarrow>
          (case post cfg headers (create_svg_data prompt) w1 of
             (RequestException e, w2) \<Rightarrow> sys_exit 1 (echo (''Error calling Claude API: '' @ e) w2)
           | (OtherException, w2) \<Rightarrow> (Inl Traceback, w2)
           | (Content content, w2) \<Rightarrow> create_svg_extract content w2))"

subsection \<open>\<^verbatim>\<open>edit_svg\<close>\<close>

text \<open>Lines 105 to 118, the dictionary \<^verbatim>\<open>data\<close> of \<^verbatim>\<open>edit_svg\<close>.\<close>

definition edit_svg_data :: "string \<Rightarrow> string \<Rightarrow> payload" where
  "edit_svg_data prompt svg_content =
     \<lparr>model = MODEL, max_tokens = 4096, system = SVG_SYSTEM_PROMPT,
      messages =
        [\<lparr>msg_role = ''user'',
          msg_content = Blocks
            [\<lparr>block_type = ''text'', block_text = ''Here is an SVG file. '' @ prompt\<rparr>,
             \<lparr>block_type = ''text'', block_text = svg_content\<rparr>]\<rparr>]\<rparr>"

text \<open>Lines 127 to 133, the extraction of \<^verbatim>\<open>edit_svg\<close>.\<close>

definition edit_svg_extract :: "string \<Rightarrow> string action" where
  "edit_svg_extract content w =
     (if str_in ''<svg'' content \<and> str_in ''</svg>'' content then
        (let svg_start = str_find content ''<svg'';
             svg_end = str_find content ''</svg>'' + 6
         in (Inr (str_slice content svg_start svg_end), w))
      else
        sys_exit 1 (echo ''Error: Claude's response did not contain valid SVG code.'' w))"

text \<open>
  The input file is read first. Where the read raises, only \<^verbatim>\<open>FileNotFoundError\<close> is
  caught and reported; any other exception leaves the function uncaught. Then the headers,
  the request and the extraction.
\<close>

definition edit_svg :: "setting \<Rightarrow> string \<Rightarrow> string \<Rightarrow> string action" where
  "edit_svg cfg input_file prompt w =
     (case files w input_file of
        None \<Rightarrow>
          if read_error cfg input_file then (Inl Traceback, w)
          else
            sys_exit 1
              (echo (''Error: Input file '' @ [CHR 0x27] @ input_file @ [CHR 0x27] @ '' not found.'') w)
      | Some svg_content \<Rightarrow>
          (case get_headers cfg w of
             (Inl a, w1) \<Rightarrow> (Inl a, w1)
           | (Inr headers, w1) \<Rightarrow>
               (case post cfg headers (edit_svg_data prompt svg_content) w1 of
                  (RequestException e, w2) \<Rightarrow>
                    sys_exit 1 (echo (''Error calling Claude API: '' @ e) w2)
                | (OtherException, w2) \<Rightarrow> (Inl Traceback, w2)
                | (Content content, w2) \<Rightarrow> edit_svg_extract content w2)))"

subsection \<open>The commands\<close>

text \<open>
  Saving the result: \<^verbatim>\<open>open(output, "w")\<close> either raises \<^verbatim>\<open>IOError\<close>, which is
  reported, or the file then holds the text written.
\<close>

definition create :: "setting \<Rightarrow> string \<Rightarrow> string \<Rightarrow> unit action" where
  "create cfg prompt output w =
     (case create_svg cfg prompt (echo (''Creating SVG from prompt: '' @ prompt) w) of
        (Inl a, w1) \<Rightarrow> (Inl a, w1)
      | (Inr svg_content, w1) \<Rightarrow>
          (case write_error cfg output of
             Some e \<Rightarrow> sys_exit 1 (echo (''Error saving SVG file: '' @ e) w1)
           | None \<Rightarrow>
               (Inr (),
                echo (''SVG created successfully: '' @ output)
                  (w1\<lparr>files := (files w1)(output \<mapsto> svg_content)\<rparr>))))"

definition edit :: "setting \<Rightarrow> string \<Rightarrow> string \<Rightarrow> string \<Rightarrow> unit action" where
  "edit cfg input output prompt w =
     (case edit_svg cfg input prompt
             (echo (''Editing SVG '' @ input @ '' with prompt: '' @ prompt) w) of
        (Inl a, w1) \<Rightarrow> (Inl a, w1)
      | (Inr svg_content, w1) \<Rightarrow>
          (case write_error cfg output of
             Some e \<Rightarrow> sys_exit 1 (echo (''Error saving SVG file: '' @ e) w1)
           | None \<Rightarrow>
               (Inr (),
                echo (''SVG edited successfully: '' @ output)
                  (w1\<lparr>files := (files w1)(output \<mapsto> svg_content)\<rparr>))))"

subsection \<open>Fixtures\<close>

text \<open>
  A process that has printed and posted nothing, on an empty file system; and, as in the
  test suite, surroundings in which \<^verbatim>\<open>ANTHROPIC_API_KEY\<close> holds a given value (or is
  unset), the service answers every request alike, every write succeeds and a path that
  cannot be read raises \<^verbatim>\<open>FileNotFoundError\<close>.
\<close>

definition fresh :: world where
  "fresh = \<lparr>files = Map.empty, stdout = [], posted = []\<rparr>"

definition mock_setting :: "string option \<Rightarrow> reply \<Rightarrow> setting" where
  "mock_setting key r =
     \<lparr>environ = (\<lambda>name. if name = ''ANTHROPIC_API_KEY'' then key else None),
      net = (\<lambda>req. r),
      write_error = (\<lambda>path. None),
      read_error = (\<lambda>path. False)\<rparr>"

section \<open>Properties of the string operations\<close>

lemma str_in_sublist: "str_in sub s \<longleftrightarrow> sublist sub s"
  by (induction s) (simp_all add: sublist_Cons_right)

lemma sublist_length: "sublist sub s \<Longrightarrow> length sub \<le> length s"
  by (auto simp: sublist_def)

lemma find_ge: "- 1 \<le> str_find s sub"
  by (induction s) (simp_all add: Let_def)

lemma find_nonneg_iff: "0 \<le> str_find s sub \<longleftrightarrow> str_in sub s"
  using find_ge[of _ sub]
  apply (induction s) apply (simp_all add: Let_def)
  by (smt (verit))

lemma prefix_short: "prefix xs (ys @ zs) \<Longrightarrow> length xs \<le> length ys \<Longrightarrow> prefix xs ys"
  by (auto simp: prefix_append)

lemma find_decomp:
  assumes "sub \<noteq> []" "str_in sub s"
  shows "\<exists>pre rest. s = pre @ sub @ rest \<and> str_find s sub = int (length pre)
           \<and> \<not> str_in sub (pre @ butlast sub)"
  using assms(2)
proof (induction s)
  case Nil
  with assms(1) show ?case by simp
next
  case (Cons c cs)
  show ?case
  proof (cases "prefix sub (c # cs)")
    case True
    then obtain rest where "c # cs = sub @ rest" by (auto simp: prefix_def)
    moreover have "\<not> str_in sub (butlast sub)"
      using assms(1) sublist_length[of sub "butlast sub"] by (cases sub) (auto simp: str_in_sublist)
    moreover have "str_find (c # cs) sub = 0"
      using True by simp
    ultimately have "c # cs = [] @ sub @ rest \<and> str_find (c # cs) sub = int (length ([]::'a list))
        \<and> \<not> str_in sub ([] @ butlast sub)"
      by simp
    then show ?thesis by blast
  next
    case False
    with Cons.prems have "str_in sub cs" by simp
    from Cons.IH[OF this] obtain pre rest where
      d: "cs = pre @ sub @ rest" "str_find cs sub = int (length pre)"
         "\<not> str_in sub (pre @ butlast sub)" by blast
    have "\<not> prefix sub (c # pre @ butlast sub)"
    proof
      assume "prefix sub (c # pre @ butlast sub)"
      then have "prefix sub ((c # pre @ butlast sub) @ ([last sub] @ rest))"
        using prefix_prefix by blast
      moreover have "sub = butlast sub @ [last sub]"
        using assms(1) by simp
      ultimately have "prefix sub (c # pre @ sub @ rest)"
        by (metis append.assoc append_Cons)
      with d(1) False show False by simp
    qed
    with d False have "c # cs = (c # pre) @ sub @ rest \<and>
        str_find (c # cs) sub = int (length (c # pre)) \<and> \<not> str_in sub ((c # pre) @ butlast sub)"
      by simp
    then show ?thesis by blast
  qed
qed

lemma find_first:
  assumes "sub \<noteq> []" "\<not> str_in sub (pre @ butlast sub)"
  shows "str_find (pre @ sub @ rest) sub = int (length pre)"
  using assms(2)
proof (induction pre)
  case Nil
  from assms(1) obtain c cs where "sub = c # cs" by (cases sub) auto
  then show ?case by simp
next
  case (Cons c pre)
  then have np: "\<not> prefix sub (c # pre @ butlast sub)" and ns: "\<not> str_in sub (pre @ butlast sub)"
    by simp_all
  have "\<not> prefix sub (c # pre @ sub @ rest)"
  proof
    assume "prefix sub (c # pre @ sub @ rest)"
    moreover have "sub = butlast sub @ [last sub]"
      using assms(1) by simp
    ultimately have "prefix sub ((c # pre @ butlast sub) @ ([last sub] @ rest))"
      by (metis append.assoc append_Cons)
    moreover have "length sub \<le> length (c # pre @ butlast sub)"
      by simp
    ultimately have "prefix sub (c # pre @ butlast sub)"
      by (rule prefix_short)
    with np show False by simp
  qed
  with Cons.IH[OF ns] show ?case by simp
qed


lemma tag_overlap:
  assumes "''<svg'' = us @ vs" "us \<noteq> []" "vs @ ra = ''</svg>'' @ rb"
  shows "vs = []"
  using assms by (auto simp: Cons_eq_append_conv append_eq_Cons_conv)

lemma extract_span:
  assumes a: "str_in ''<svg'' t" and b: "str_in ''</svg>'' t"
    and lt: "str_find t ''<svg'' < str_find t ''</svg>''"
  shows "\<exists>pre mid rest. t = pre @ ''<svg'' @ mid @ ''</svg>'' @ rest
           \<and> \<not> str_in ''<svg'' (pre @ ''<sv'')
           \<and> \<not> str_in ''</svg>'' (pre @ ''<svg'' @ mid @ ''</svg'')
           \<and> str_find t ''<svg'' = int (length pre)
           \<and> str_find t ''</svg>'' = int (length pre + 4 + length mid)"
proof -
  from find_decomp[OF _ a] obtain pa ra where
    A: "t = pa @ ''<svg'' @ ra" "str_find t ''<svg'' = int (length pa)"
       "\<not> str_in ''<svg'' (pa @ ''<sv'')" by auto
  from find_decomp[OF _ b] obtain pb rb where
    B: "t = pb @ ''</svg>'' @ rb" "str_find t ''</svg>'' = int (length pb)"
       "\<not> str_in ''</svg>'' (pb @ ''</svg'')" by auto
  from lt A(2) B(2) have len: "length pa < length pb" by simp
  from A(1) B(1) have "pa @ (''<svg'' @ ra) = pb @ (''</svg>'' @ rb)" by simp
  then obtain us where
    "pa = pb @ us \<and> us @ (''<svg'' @ ra) = ''</svg>'' @ rb \<or>
     pa @ us = pb \<and> ''<svg'' @ ra = us @ (''</svg>'' @ rb)"
    unfolding append_eq_append_conv2 by blast
  with len have us: "pb = pa @ us" "''<svg'' @ ra = us @ (''</svg>'' @ rb)" "us \<noteq> []"
    by auto
  from us(2) obtain vs where
    vs: "''<svg'' = us @ vs \<and> vs @ ra = ''</svg>'' @ rb \<or>
         ''<svg'' @ vs = us \<and> ra = vs @ (''</svg>'' @ rb)"
    unfolding append_eq_append_conv2 by blast
  have "\<exists>mid. us = ''<svg'' @ mid \<and> ra = mid @ ''</svg>'' @ rb"
  proof -
    from vs consider
      (short) "''<svg'' = us @ vs" "vs @ ra = ''</svg>'' @ rb"
      | (long) "''<svg'' @ vs = us" "ra = vs @ (''</svg>'' @ rb)"
      by blast
    then show ?thesis
    proof cases
      case short
      have "vs = []" by (rule tag_overlap[OF short(1) us(3) short(2)])
      with short show ?thesis by simp
    next
      case long
      then show ?thesis by auto
    qed
  qed
  then obtain mid where mid: "us = ''<svg'' @ mid" "ra = mid @ ''</svg>'' @ rb" by blast
  have "t = pa @ ''<svg'' @ mid @ ''</svg>'' @ rb"
    using A(1) mid(2) by simp
  moreover have "\<not> str_in ''</svg>'' (pa @ ''<svg'' @ mid @ ''</svg'')"
    using B(3) us(1) mid(1) by simp
  moreover have "str_find t ''</svg>'' = int (length pa + 4 + length mid)"
    using B(2) us(1) mid(1) by simp
  ultimately show ?thesis using A(2,3) by blast
qed

lemma slice_span:
  "str_slice (pre @ xs @ rest) (int (length pre)) (int (length pre + length xs)) = xs"
  by (simp add: str_slice_def Let_def)

lemma extract_result:
  assumes a: "str_in ''<svg'' t" and b: "str_in ''</svg>'' t"
    and lt: "str_find t ''<svg'' < str_find t ''</svg>''"
  shows "\<exists>pre mid rest. t = pre @ ''<svg'' @ mid @ ''</svg>'' @ rest
           \<and> \<not> str_in ''<svg'' (pre @ ''<sv'')
           \<and> \<not> str_in ''</svg>'' (pre @ ''<svg'' @ mid @ ''</svg'')
           \<and> str_slice t (str_find t ''<svg'') (str_find t ''</svg>'' + 6)
               = ''<svg'' @ mid @ ''</svg>''"
proof -
  from extract_span[OF a b lt] obtain pre mid rest where
    s: "t = pre @ ''<svg'' @ mid @ ''</svg>'' @ rest"
       "\<not> str_in ''<svg'' (pre @ ''<sv'')"
       "\<not> str_in ''</svg>'' (pre @ ''<svg'' @ mid @ ''</svg'')"
       "str_find t ''<svg'' = int (length pre)"
       "str_find t ''</svg>'' = int (length pre + 4 + length mid)"
    by blast
  have "str_slice (pre @ (''<svg'' @ mid @ ''</svg>'') @ rest) (int (length pre))
          (int (length pre + length (''<svg'' @ mid @ ''</svg>''))) = ''<svg'' @ mid @ ''</svg>''"
    by (rule slice_span)
  moreover have "int (length pre + 4 + length mid) + 6
      = int (length pre + length (''<svg'' @ mid @ ''</svg>''))"
    by simp
  ultimately have "str_slice t (str_find t ''<svg'') (str_find t ''</svg>'' + 6)
      = ''<svg'' @ mid @ ''</svg>''"
    using s(1,4,5) by (simp only: append_assoc)
  with s(1,2,3) show ?thesis by blast
qed

text \<open>A text that is one span, with no earlier closing tag inside it, is extracted whole.\<close>

lemma extract_fixed:
  assumes "\<not> str_in ''</svg>'' (''<svg'' @ mid @ ''</svg'')"
  shows "str_in ''<svg'' (''<svg'' @ mid @ ''</svg>'')
       \<and> str_in ''</svg>'' (''<svg'' @ mid @ ''</svg>'')
       \<and> str_slice (''<svg'' @ mid @ ''</svg>'') (str_find (''<svg'' @ mid @ ''</svg>'') ''<svg'')
            (str_find (''<svg'' @ mid @ ''</svg>'') ''</svg>'' + 6) = ''<svg'' @ mid @ ''</svg>''"
proof -
  let ?r = "''<svg'' @ mid @ ''</svg>''"
  have 1: "str_in ''<svg'' ?r" by simp
  have 2: "str_in ''</svg>'' ?r"
    unfolding str_in_sublist using sublist_appendI[of "''</svg>''" "''<svg'' @ mid" "[]"] by simp
  have 3: "str_find ?r ''<svg'' = 0" by simp
  have "str_find ((''<svg'' @ mid) @ ''</svg>'' @ []) ''</svg>'' = int (length (''<svg'' @ mid))"
    by (rule find_first) (use assms in simp_all)
  then have 4: "str_find ?r ''</svg>'' = int (length mid + 4)" by simp
  have "str_slice ([] @ ?r @ []) (int (length ([]::string))) (int (length ([]::string) + length ?r)) = ?r"
    by (rule slice_span)
  then have "str_slice ?r 0 (int (length mid + 4) + 6) = ?r"
    by (simp add: add.commute)
  with 1 2 3 4 show ?thesis by simp
qed

lemma not_in_suffix: "\<not> str_in sub (pre @ s) \<Longrightarrow> \<not> str_in sub s"
  unfolding str_in_sublist by (metis sublist_append)

lemmas run_defs = create_def edit_def create_svg_def edit_svg_def get_headers_def
  validate_api_key_def post_def echo_def sys_exit_def API_KEY_def

section \<open>The claims\<close>

subsection \<open>C1: what a successful extraction returns\<close>

text \<open>
  C1 says that for every response text holding both \<^verbatim>\<open><svg\<close> and \<^verbatim>\<open></svg>\<close> the
  extraction returns the part from the first \<^verbatim>\<open><svg\<close> through the first \<^verbatim>\<open></svg>\<close>,
  a string that begins with \<^verbatim>\<open><svg\<close>. The code misses a case: its guard tests that
  both tags occur, not their order. On the text \<^verbatim>\<open></svg><svg></svg>\<close> both tags occur,
  the start offset is 6 and the stop offset is 0 + 6, the slice is empty, and the empty
  string is returned as the SVG; it does not begin with \<^verbatim>\<open><svg\<close>. The command
  \<^verbatim>\<open>create\<close> then writes an empty file, prints the success line and ends with exit
  status 0.
\<close>

theorem C1_reversed_tags:
  "str_in ''<svg'' ''</svg><svg></svg>'' \<and> str_in ''</svg>'' ''</svg><svg></svg>''
   \<and> str_find ''</svg><svg></svg>'' ''<svg'' = 6
   \<and> str_find ''</svg><svg></svg>'' ''</svg>'' + 6 = 6
   \<and> create_svg_extract ''</svg><svg></svg>'' fresh = (Inr [], fresh)
   \<and> \<not> prefix ''<svg'' []
   \<and> exit_code (fst (create (mock_setting (Some ''test_api_key'') (Content ''</svg><svg></svg>''))
         ''a circle'' ''out.svg'' fresh)) = 0
   \<and> files (snd (create (mock_setting (Some ''test_api_key'') (Content ''</svg><svg></svg>''))
         ''a circle'' ''out.svg'' fresh)) ''out.svg'' = Some []
   \<and> stdout (snd (create (mock_setting (Some ''test_api_key'') (Content ''</svg><svg></svg>''))
         ''a circle'' ''out.svg'' fresh)) =
       [''Creating SVG from prompt: a circle'', ''SVG created successfully: out.svg'']"
  by (simp add: create_def create_svg_def get_headers_def validate_api_key_def post_def
      echo_def API_KEY_def truthy_def startswith_def mock_setting_def fresh_def
      create_svg_extract_def Let_def str_slice_def)

text \<open>
  Wherever the first \<^verbatim>\<open><svg\<close> starts before the first \<^verbatim>\<open></svg>\<close> the code does what
  C1 says: the text is \<open>pre @ <svg @ mid @ </svg> @ rest\<close>, no \<^verbatim>\<open><svg\<close> starts inside
  \<open>pre\<close>, no \<^verbatim>\<open></svg>\<close> starts before the one shown, and the result is
  \<open><svg @ mid @ </svg>\<close>, with nothing printed.
\<close>

theorem C1_extract_span:
  assumes "str_in ''<svg'' t" "str_in ''</svg>'' t" "str_find t ''<svg'' < str_find t ''</svg>''"
  shows "\<exists>pre mid rest. t = pre @ ''<svg'' @ mid @ ''</svg>'' @ rest
           \<and> \<not> str_in ''<svg'' (pre @ ''<sv'')
           \<and> \<not> str_in ''</svg>'' (pre @ ''<svg'' @ mid @ ''</svg'')
           \<and> create_svg_extract t w = (Inr (''<svg'' @ mid @ ''</svg>''), w)"
  using extract_result[OF assms] assms(1,2)
  by (simp add: create_svg_extract_def Let_def)

theorem C1_extract_span_witness:
  "str_in ''<svg'' ''Here: <svg a/></svg> bye'' \<and> str_in ''</svg>'' ''Here: <svg a/></svg> bye''
   \<and> str_find ''Here: <svg a/></svg> bye'' ''<svg'' < str_find ''Here: <svg a/></svg> bye'' ''</svg>''
   \<and> (\<exists>pre mid rest. ''Here: <svg a/></svg> bye'' = pre @ ''<svg'' @ mid @ ''</svg>'' @ rest
           \<and> \<not> str_in ''<svg'' (pre @ ''<sv'')
           \<and> \<not> str_in ''</svg>'' (pre @ ''<svg'' @ mid @ ''</svg'')
           \<and> create_svg_extract ''Here: <svg a/></svg> bye'' fresh = (Inr (''<svg'' @ mid @ ''</svg>''), fresh))"
proof -
  have a: "str_in ''<svg'' ''Here: <svg a/></svg> bye''" by simp
  have b: "str_in ''</svg>'' ''Here: <svg a/></svg> bye''" by simp
  have c: "str_find ''Here: <svg a/></svg> bye'' ''<svg'' < str_find ''Here: <svg a/></svg> bye'' ''</svg>''"
    by simp
  from C1_extract_span [OF a b c, of fresh] a b c show ?thesis by blast
qed

subsection \<open>C2: an opening tag with no closing tag\<close>

text \<open>
  C2: for every response text that contains \<^verbatim>\<open><svg\<close> but not \<^verbatim>\<open></svg>\<close>, the
  extraction (of \<^verbatim>\<open>create_svg\<close> and of \<^verbatim>\<open>edit_svg\<close>) prints the invalid-output message
  and exits with code 1. No slice is ever returned from a sentinel offset: whenever an
  extraction returns, both offsets it sliced with were found, not \<open>-1\<close>.
\<close>

theorem C2_unclosed_svg:
  "(str_in ''<svg'' t \<and> \<not> str_in ''</svg>'' t \<longrightarrow>
      create_svg_extract t w =
        (Inl (SystemExit 1),
         w\<lparr>stdout := stdout w @ [''Error: Claude's response did not contain valid SVG code.'']\<rparr>)
    \<and> edit_svg_extract t w =
        (Inl (SystemExit 1),
         w\<lparr>stdout := stdout w @ [''Error: Claude's response did not contain valid SVG code.'']\<rparr>))
   \<and> (create_svg_extract u w = (Inr r, v) \<or> edit_svg_extract u w = (Inr r, v) \<longrightarrow>
        0 \<le> str_find u ''<svg'' \<and> 0 \<le> str_find u ''</svg>'')"
  by (auto simp: create_svg_extract_def edit_svg_extract_def sys_exit_def echo_def
      find_nonneg_iff split: if_splits)

theorem C2_unclosed_svg_witness:
  "str_in ''<svg'' ''<svg width=1>'' \<and> \<not> str_in ''</svg>'' ''<svg width=1>''
   \<and> create_svg_extract ''<svg width=1>'' fresh =
       (Inl (SystemExit 1),
        fresh\<lparr>stdout := stdout fresh @ [''Error: Claude's response did not contain valid SVG code.'']\<rparr>)
   \<and> edit_svg_extract ''<svg width=1>'' fresh =
       (Inl (SystemExit 1),
        fresh\<lparr>stdout := stdout fresh @ [''Error: Claude's response did not contain valid SVG code.'']\<rparr>)"
proof -
  have a: "str_in ''<svg'' ''<svg width=1>'' \<and> \<not> str_in ''</svg>'' ''<svg width=1>''" by simp
  from C2_unclosed_svg [of "''<svg width=1>''" fresh] a show ?thesis by blast
qed

subsection \<open>C3: which authentication header is sent\<close>

text \<open>
  C3: for every non-empty credential, \<^verbatim>\<open>get_headers\<close> returns headers, printing nothing,
  and they depend on the credential alone: if it starts with \<^verbatim>\<open>sk-ant-\<close> they hold
  \<^verbatim>\<open>x-api-key\<close> with the credential and no \<^verbatim>\<open>authorization\<close>; otherwise they hold
  \<^verbatim>\<open>authorization\<close> with \<^verbatim>\<open>Bearer\<close>, a space and the credential, and no
  \<^verbatim>\<open>x-api-key\<close>.
\<close>

theorem C3_header_selection:
  assumes "API_KEY cfg = Some key" "key \<noteq> []"
  shows "\<exists>h. get_headers cfg w = (Inr h, w)
           \<and> (if startswith key ''sk-ant-''
               then h ''x-api-key'' = Some key \<and> h ''authorization'' = None
               else h ''authorization'' = Some (''Bearer '' @ key) \<and> h ''x-api-key'' = None)"
  using assms
  by (cases "startswith key ''sk-ant-''")
    (simp_all add: get_headers_def validate_api_key_def truthy_def)

theorem C3_header_selection_witness:
  "API_KEY (mock_setting (Some ''sk-ant-abc'') OtherException) = Some ''sk-ant-abc''
   \<and> ''sk-ant-abc'' \<noteq> []
   \<and> (\<exists>h. get_headers (mock_setting (Some ''sk-ant-abc'') OtherException) fresh = (Inr h, fresh)
           \<and> (if startswith ''sk-ant-abc'' ''sk-ant-''
               then h ''x-api-key'' = Some ''sk-ant-abc'' \<and> h ''authorization'' = None
               else h ''authorization'' = Some (''Bearer '' @ ''sk-ant-abc'') \<and> h ''x-api-key'' = None))"
proof -
  have k: "API_KEY (mock_setting (Some ''sk-ant-abc'') OtherException) = Some ''sk-ant-abc''"
    by (simp add: API_KEY_def mock_setting_def truthy_def)
  have n: "''sk-ant-abc'' \<noteq> []" by simp
  from C3_header_selection [OF k n, of fresh] k n show ?thesis by blast
qed

subsection \<open>C4: no credential, no request\<close>

text \<open>
  C4: if neither \<^verbatim>\<open>ANTHROPIC_API_KEY\<close> nor \<^verbatim>\<open>CLAUDE_API_KEY\<close> supplies a non-empty
  value, then \<^verbatim>\<open>create\<close> and \<^verbatim>\<open>edit\<close> both exit with code 1, having posted no request
  and written no file, whatever their arguments and whatever the service would answer.
\<close>

theorem C4_no_credential:
  assumes "\<not> truthy (environ cfg ''ANTHROPIC_API_KEY'')"
      and "\<not> truthy (environ cfg ''CLAUDE_API_KEY'')"
  shows "exit_code (fst (create cfg prompt output w)) = 1
       \<and> posted (snd (create cfg prompt output w)) = posted w
       \<and> files (snd (create cfg prompt output w)) = files w
       \<and> exit_code (fst (edit cfg input output prompt w)) = 1
       \<and> posted (snd (edit cfg input output prompt w)) = posted w
       \<and> files (snd (edit cfg input output prompt w)) = files w"
  using assms by (simp add: run_defs split: option.splits)

theorem C4_no_credential_witness:
  "\<not> truthy (environ (mock_setting (Some []) (Content ''<svg></svg>'')) ''ANTHROPIC_API_KEY'')
   \<and> \<not> truthy (environ (mock_setting (Some []) (Content ''<svg></svg>'')) ''CLAUDE_API_KEY'')
   \<and> exit_code (fst (create (mock_setting (Some []) (Content ''<svg></svg>'')) ''bluer'' ''out.svg''
         (fresh\<lparr>files := [''in.svg'' \<mapsto> ''<svg/>'']\<rparr>))) = 1
   \<and> posted (snd (create (mock_setting (Some []) (Content ''<svg></svg>'')) ''bluer'' ''out.svg''
         (fresh\<lparr>files := [''in.svg'' \<mapsto> ''<svg/>'']\<rparr>))) =
       posted (fresh\<lparr>files := [''in.svg'' \<mapsto> ''<svg/>'']\<rparr>)
   \<and> exit_code (fst (edit (mock_setting (Some []) (Content ''<svg></svg>'')) ''in.svg'' ''out.svg'' ''bluer''
         (fresh\<lparr>files := [''in.svg'' \<mapsto> ''<svg/>'']\<rparr>))) = 1
   \<and> posted (snd (edit (mock_setting (Some []) (Content ''<svg></svg>'')) ''in.svg'' ''out.svg'' ''bluer''
         (fresh\<lparr>files := [''in.svg'' \<mapsto> ''<svg/>'']\<rparr>))) =
       posted (fresh\<lparr>files := [''in.svg'' \<mapsto> ''<svg/>'']\<rparr>)"
proof -
  let ?cfg = "mock_setting (Some []) (Content ''<svg></svg>'')"
  let ?w = "fresh\<lparr>files := [''in.svg'' \<mapsto> ''<svg/>'']\<rparr>"
  have a: "\<not> truthy (environ ?cfg ''ANTHROPIC_API_KEY'')" by (simp add: mock_setting_def truthy_def)
  have b: "\<not> truthy (environ ?cfg ''CLAUDE_API_KEY'')" by (simp add: mock_setting_def truthy_def)
  from C4_no_credential [of ?cfg "''bluer''" "''out.svg''" ?w "''in.svg''", OF a b] a b
  show ?thesis by blast
qed

subsection \<open>C5: a response with no SVG\<close>

text \<open>
  C5: when a credential is present and the service answers with a text that has no
  \<^verbatim>\<open><svg\<close>, \<^verbatim>\<open>create\<close> prints the invalid-output message after its first line and
  exits with code 1, and the files are as before: nothing is written. The same holds for
  \<^verbatim>\<open>edit\<close> when its input file exists.
\<close>

theorem C5_no_svg:
  assumes "truthy (API_KEY cfg)" and "\<forall>req. net cfg req = Content t" and "\<not> str_in ''<svg'' t"
  shows "fst (create cfg prompt output w) = Inl (SystemExit 1)
       \<and> exit_code (fst (create cfg prompt output w)) = 1
       \<and> files (snd (create cfg prompt output w)) = files w
       \<and> stdout (snd (create cfg prompt output w)) = stdout w @
           [''Creating SVG from prompt: '' @ prompt,
            ''Error: Claude's response did not contain valid SVG code.'']
       \<and> (files w input \<noteq> None \<longrightarrow>
            exit_code (fst (edit cfg input output prompt w)) = 1
          \<and> files (snd (edit cfg input output prompt w)) = files w
          \<and> stdout (snd (edit cfg input output prompt w)) = stdout w @
              [''Editing SVG '' @ input @ '' with prompt: '' @ prompt,
               ''Error: Claude's response did not contain valid SVG code.''])"
  using assms
  by (auto simp: create_def edit_def create_svg_def edit_svg_def get_headers_def
      validate_api_key_def post_def echo_def sys_exit_def create_svg_extract_def
      edit_svg_extract_def truthy_def Let_def split: option.splits)

theorem C5_no_svg_witness:
  "truthy (API_KEY (mock_setting (Some ''test_api_key'') (Content ''I cannot draw that.'')))
   \<and> (\<forall>req. net (mock_setting (Some ''test_api_key'') (Content ''I cannot draw that.'')) req
          = Content ''I cannot draw that.'')
   \<and> \<not> str_in ''<svg'' ''I cannot draw that.''
   \<and> exit_code (fst (create (mock_setting (Some ''test_api_key'') (Content ''I cannot draw that.''))
        ''a circle'' ''out.svg'' fresh)) = 1
   \<and> files (snd (create (mock_setting (Some ''test_api_key'') (Content ''I cannot draw that.''))
        ''a circle'' ''out.svg'' fresh)) = files fresh"
proof -
  let ?cfg = "mock_setting (Some ''test_api_key'') (Content ''I cannot draw that.'')"
  have a: "truthy (API_KEY ?cfg)" by (simp add: API_KEY_def mock_setting_def truthy_def)
  have b: "\<forall>req. net ?cfg req = Content ''I cannot draw that.''" by (simp add: mock_setting_def)
  have c: "\<not> str_in ''<svg'' ''I cannot draw that.''" by simp
  from C5_no_svg [OF a b c, of "''a circle''" "''out.svg''" fresh] a b c
  show ?thesis by blast
qed

subsection \<open>C6: editing a file that is not there\<close>

text \<open>
  C6: in \<^verbatim>\<open>edit\<close>, if the input path holds no file to read, the command ends with exit
  status 1, no request is posted and no file is created or changed. Where \<^verbatim>\<open>open\<close>
  raises \<^verbatim>\<open>FileNotFoundError\<close> the command prints its first line and the not-found
  message and exits through \<^verbatim>\<open>sys.exit(1)\<close>; where it raises anything else (a path
  through a file, a directory, a name too long) the command prints its first line and ends
  with the traceback. This holds with or without a credential: the file is read before the
  headers are built.
\<close>

theorem C6_missing_input:
  assumes "files w input = None"
  shows "exit_code (fst (edit cfg input output prompt w)) = 1
       \<and> posted (snd (edit cfg input output prompt w)) = posted w
       \<and> files (snd (edit cfg input output prompt w)) = files w
       \<and> (\<not> read_error cfg input \<longrightarrow>
            edit cfg input output prompt w =
              (Inl (SystemExit 1),
               w\<lparr>stdout := stdout w @
                  [''Editing SVG '' @ input @ '' with prompt: '' @ prompt,
                   ''Error: Input file '' @ [CHR 0x27] @ input @ [CHR 0x27] @ '' not found.'']\<rparr>))
       \<and> (read_error cfg input \<longrightarrow>
            edit cfg input output prompt w =
              (Inl Traceback,
               w\<lparr>stdout := stdout w @
                  [''Editing SVG '' @ input @ '' with prompt: '' @ prompt]\<rparr>))"
  using assms by (simp add: edit_def edit_svg_def sys_exit_def echo_def)

theorem C6_missing_input_witness:
  "files fresh ''in.svg'' = None
   \<and> \<not> read_error (mock_setting None OtherException) ''in.svg''
   \<and> edit (mock_setting None OtherException) ''in.svg'' ''out.svg'' ''bluer'' fresh =
       (Inl (SystemExit 1),
        fresh\<lparr>stdout := stdout fresh @
           [''Editing SVG '' @ ''in.svg'' @ '' with prompt: '' @ ''bluer'',
            ''Error: Input file '' @ [CHR 0x27] @ ''in.svg'' @ [CHR 0x27] @ '' not found.'']\<rparr>)
   \<and> exit_code (fst (edit (mock_setting None OtherException) ''in.svg'' ''out.svg'' ''bluer'' fresh)) = 1
   \<and> posted (snd (edit (mock_setting None OtherException) ''in.svg'' ''out.svg'' ''bluer'' fresh)) = posted fresh
   \<and> files (snd (edit (mock_setting None OtherException) ''in.svg'' ''out.svg'' ''bluer'' fresh)) = files fresh
   \<and> files fresh ''in.svg/x'' = None
   \<and> read_error ((mock_setting None OtherException)\<lparr>read_error := (\<lambda>path. True)\<rparr>) ''in.svg/x''
   \<and> edit ((mock_setting None OtherException)\<lparr>read_error := (\<lambda>path. True)\<rparr>)
         ''in.svg/x'' ''out.svg'' ''bluer'' fresh =
       (Inl Traceback,
        fresh\<lparr>stdout := stdout fresh @ [''Editing SVG '' @ ''in.svg/x'' @ '' with prompt: '' @ ''bluer'']\<rparr>)
   \<and> exit_code (fst (edit ((mock_setting None OtherException)\<lparr>read_error := (\<lambda>path. True)\<rparr>)
         ''in.svg/x'' ''out.svg'' ''bluer'' fresh)) = 1"
proof -
  let ?cfg = "mock_setting None OtherException"
  let ?bad = "(mock_setting None OtherException)\<lparr>read_error := (\<lambda>path. True)\<rparr>"
  have h: "files fresh ''in.svg'' = None" by (simp add: fresh_def)
  have r: "\<not> read_error ?cfg ''in.svg''" by (simp add: mock_setting_def)
  have h': "files fresh ''in.svg/x'' = None" by (simp add: fresh_def)
  have r': "read_error ?bad ''in.svg/x''" by simp
  from C6_missing_input [OF h, of ?cfg "''out.svg''" "''bluer''"]
    C6_missing_input [OF h', of ?bad "''out.svg''" "''bluer''"] h r h' r'
  show ?thesis by blast
qed

subsection \<open>C7: the edit request\<close>

text \<open>
  C7: for every prompt \<open>p\<close> and SVG text \<open>s\<close>, the payload of \<^verbatim>\<open>edit_svg\<close> has one
  message, of the user, with exactly two text blocks in this order: the instruction
  \<^verbatim>\<open>Here is an SVG file. \<close> followed by \<open>p\<close>, then \<open>s\<close> itself. And when the input
  file holds \<open>s\<close> and a credential is present, \<^verbatim>\<open>edit_svg\<close> posts exactly one request,
  with that payload.
\<close>

theorem C7_edit_blocks:
  "messages (edit_svg_data p s) =
     [\<lparr>msg_role = ''user'',
       msg_content = Blocks
         [\<lparr>block_type = ''text'', block_text = ''Here is an SVG file. '' @ p\<rparr>,
          \<lparr>block_type = ''text'', block_text = s\<rparr>]\<rparr>]
   \<and> (files w f = Some s \<and> truthy (API_KEY cfg) \<longrightarrow>
        (\<exists>h. posted (snd (edit_svg cfg f p w)) =
               posted w @ [\<lparr>req_url = API_URL, req_headers = h,
                              req_json = edit_svg_data p s, req_timeout = 60\<rparr>]))"
  by (auto simp: edit_svg_data_def edit_svg_def get_headers_def validate_api_key_def
      post_def echo_def sys_exit_def edit_svg_extract_def Let_def truthy_def
      split: option.splits reply.splits)

theorem C7_edit_blocks_witness:
  "files (fresh\<lparr>files := [''in.svg'' \<mapsto> '' <svg/> '']\<rparr>) ''in.svg'' = Some '' <svg/> ''
   \<and> truthy (API_KEY (mock_setting (Some ''test_api_key'') OtherException))
   \<and> messages (edit_svg_data ''make it blue'' '' <svg/> '') =
     [\<lparr>msg_role = ''user'',
       msg_content = Blocks
         [\<lparr>block_type = ''text'', block_text = ''Here is an SVG file. '' @ ''make it blue''\<rparr>,
          \<lparr>block_type = ''text'', block_text = '' <svg/> ''\<rparr>]\<rparr>]
   \<and> (\<exists>h. posted (snd (edit_svg (mock_setting (Some ''test_api_key'') OtherException) ''in.svg''
                  ''make it blue'' (fresh\<lparr>files := [''in.svg'' \<mapsto> '' <svg/> '']\<rparr>))) =
            posted (fresh\<lparr>files := [''in.svg'' \<mapsto> '' <svg/> '']\<rparr>) @
              [\<lparr>req_url = API_URL, req_headers = h,
                req_json = edit_svg_data ''make it blue'' '' <svg/> '', req_timeout = 60\<rparr>])"
proof -
  let ?w = "fresh\<lparr>files := [''in.svg'' \<mapsto> '' <svg/> '']\<rparr>"
  let ?cfg = "mock_setting (Some ''test_api_key'') OtherException"
  have a: "files ?w ''in.svg'' = Some '' <svg/> ''" by simp
  have b: "truthy (API_KEY ?cfg)" by (simp add: API_KEY_def mock_setting_def truthy_def)
  from C7_edit_blocks [of "''make it blue''" "'' <svg/> ''" ?w "''in.svg''" ?cfg] a b
  show ?thesis by blast
qed

subsection \<open>C8: the create request\<close>

text \<open>
  C8: for every prompt \<open>p\<close>, the payload of \<^verbatim>\<open>create_svg\<close> has one message, of the
  user, whose content is the fixed text
  \<^verbatim>\<open>Create an SVG image based on this description: \<close> followed by \<open>p\<close>, unchanged and
  once. And when a credential is present, \<^verbatim>\<open>create_svg\<close> posts exactly one request, with
  that payload.
\<close>

theorem C8_create_message:
  "messages (create_svg_data p) =
     [\<lparr>msg_role = ''user'',
       msg_content = Text (''Create an SVG image based on this description: '' @ p)\<rparr>]
   \<and> (truthy (API_KEY cfg) \<longrightarrow>
        (\<exists>h. posted (snd (create_svg cfg p w)) =
               posted w @ [\<lparr>req_url = API_URL, req_headers = h,
                              req_json = create_svg_data p, req_timeout = 60\<rparr>]))"
  by (auto simp: create_svg_data_def create_svg_def get_headers_def validate_api_key_def
      post_def echo_def sys_exit_def create_svg_extract_def Let_def truthy_def
      split: option.splits reply.splits)

theorem C8_create_message_witness:
  "truthy (API_KEY (mock_setting (Some ''test_api_key'') OtherException))
   \<and> messages (create_svg_data ''a blue circle'') =
     [\<lparr>msg_role = ''user'',
       msg_content = Text (''Create an SVG image based on this description: '' @ ''a blue circle'')\<rparr>]
   \<and> (\<exists>h. posted (snd (create_svg (mock_setting (Some ''test_api_key'') OtherException) ''a blue circle'' fresh)) =
               posted fresh @ [\<lparr>req_url = API_URL, req_headers = h,
                              req_json = create_svg_data ''a blue circle'', req_timeout = 60\<rparr>])"
proof -
  have k: "truthy (API_KEY (mock_setting (Some ''test_api_key'') OtherException))"
    by (simp add: API_KEY_def mock_setting_def truthy_def)
  from C8_create_message [of "''a blue circle''" "mock_setting (Some ''test_api_key'') OtherException" fresh] k
  show ?thesis by blast
qed

subsection \<open>C9: extracting twice\<close>

text \<open>
  C9 says that extracting from an extracted result returns it unchanged. The code's
  unchecked order of the tags (see C1) breaks this: on the text \<^verbatim>\<open></svg><svg\<close>
  extraction succeeds with the empty string, and extraction of the empty string prints the
  invalid-output message and exits with code 1.
\<close>

theorem C9_reversed_tags:
  "create_svg_extract ''</svg><svg'' fresh = (Inr [], fresh)
   \<and> create_svg_extract [] fresh =
       (Inl (SystemExit 1),
        fresh\<lparr>stdout := stdout fresh @ [''Error: Claude's response did not contain valid SVG code.'']\<rparr>)
   \<and> create_svg_extract [] fresh \<noteq> (Inr [], fresh)"
  by (simp add: create_svg_extract_def Let_def str_slice_def sys_exit_def echo_def)

text \<open>
  Wherever the first \<^verbatim>\<open><svg\<close> starts before the first \<^verbatim>\<open></svg>\<close> the code does what
  C9 says: extracting from the result returns the result unchanged. And both examples of
  the claim hold: \<^verbatim>\<open><svg a/></svg>\<close> is returned unchanged, and the text
  \<^verbatim>\<open>Here you go:\<close>, newline, \<^verbatim>\<open><svg a/></svg>\<close>, newline, \<^verbatim>\<open>Hope that helps!\<close> gives
  exactly \<^verbatim>\<open><svg a/></svg>\<close>.
\<close>

theorem C9_idempotent:
  "(create_svg_extract t w = (Inr r, w') \<and> str_find t ''<svg'' < str_find t ''</svg>''
      \<longrightarrow> create_svg_extract r w' = (Inr r, w'))
   \<and> create_svg_extract ''<svg a/></svg>'' w = (Inr ''<svg a/></svg>'', w)
   \<and> create_svg_extract
        (''Here you go:'' @ [CHR 0x0A] @ ''<svg a/></svg>'' @ [CHR 0x0A] @ ''Hope that helps!'') w
        = (Inr ''<svg a/></svg>'', w)"
proof (intro conjI impI)
  assume h: "create_svg_extract t w = (Inr r, w') \<and> str_find t ''<svg'' < str_find t ''</svg>''"
  then have in_t: "str_in ''<svg'' t" "str_in ''</svg>'' t"
    by (auto simp: create_svg_extract_def sys_exit_def split: if_splits)
  from h have lt: "str_find t ''<svg'' < str_find t ''</svg>''" by simp
  from extract_result[OF in_t lt] obtain pre mid rest where
    s: "\<not> str_in ''</svg>'' (pre @ ''<svg'' @ mid @ ''</svg'')"
       "str_slice t (str_find t ''<svg'') (str_find t ''</svg>'' + 6) = ''<svg'' @ mid @ ''</svg>''"
    by blast
  from h in_t s(2) have r: "r = ''<svg'' @ mid @ ''</svg>''"
    by (simp add: create_svg_extract_def Let_def)
  from s(1) have "\<not> str_in ''</svg>'' (''<svg'' @ mid @ ''</svg'')"
    by (rule not_in_suffix)
  from extract_fixed[OF this] show "create_svg_extract r w' = (Inr r, w')"
    unfolding r by (simp add: create_svg_extract_def Let_def)
next
  show "create_svg_extract ''<svg a/></svg>'' w = (Inr ''<svg a/></svg>'', w)"
    by (simp add: create_svg_extract_def Let_def str_slice_def)
next
  show "create_svg_extract
        (''Here you go:'' @ [CHR 0x0A] @ ''<svg a/></svg>'' @ [CHR 0x0A] @ ''Hope that helps!'') w
        = (Inr ''<svg a/></svg>'', w)"
    by (simp add: create_svg_extract_def Let_def str_slice_def)
qed

theorem C9_idempotent_witness:
  "create_svg_extract ''x<svg a/></svg>y'' fresh = (Inr ''<svg a/></svg>'', fresh)
   \<and> str_find ''x<svg a/></svg>y'' ''<svg'' < str_find ''x<svg a/></svg>y'' ''</svg>''
   \<and> create_svg_extract ''<svg a/></svg>'' fresh = (Inr ''<svg a/></svg>'', fresh)"
proof -
  have a: "create_svg_extract ''x<svg a/></svg>y'' fresh = (Inr ''<svg a/></svg>'', fresh)"
    by (simp add: create_svg_extract_def Let_def str_slice_def)
  have b: "str_find ''x<svg a/></svg>y'' ''<svg'' < str_find ''x<svg a/></svg>y'' ''</svg>''"
    by simp
  from C9_idempotent [of "''x<svg a/></svg>y''" fresh "''<svg a/></svg>''" fresh] a b
  show ?thesis by blast
qed

subsection \<open>C10: the two copies of the extraction\<close>

text \<open>
  C10: the extraction written out in \<^verbatim>\<open>create_svg\<close> and the one written out in
  \<^verbatim>\<open>edit_svg\<close> are the same function: on every response text and in every state both
  return the same string, or both print the same message and exit with the same code.
\<close>

theorem C10_same_extraction:
  "create_svg_extract t w = edit_svg_extract t w"
  by (simp add: create_svg_extract_def edit_svg_extract_def)

theorem C10_same_extraction_witness:
  "create_svg_extract ''x<svg a/></svg>y'' fresh = edit_svg_extract ''x<svg a/></svg>y'' fresh"
  by (rule C10_same_extraction)

end
